theory Spec2Isabelle
  imports Complex_Main
begin

section \<open>JavaScript values\<close>

text \<open>
  The values a parsed JSON request body can hold, plus \<open>undefined\<close> for a
  property that is absent. JSON numbers are read as real numbers.
\<close>

datatype jsval =
    JUndefined
  | JNull
  | JBool bool
  | JNum real
  | JStr string
  | JArr "jsval list"
  | JObj "(string \<times> jsval) list"

text \<open>JavaScript truthiness, as used by \<open>!x\<close>, \<open>x || y\<close> and \<open>if (x)\<close>.\<close>

fun truthy :: "jsval \<Rightarrow> bool" where
  "truthy JUndefined = False"
| "truthy JNull = False"
| "truthy (JBool b) = b"
| "truthy (JNum r) = (r \<noteq> 0)"
| "truthy (JStr s) = (s \<noteq> [])"
| "truthy (JArr xs) = True"
| "truthy (JObj kvs) = True"

text \<open>\<open>a || b\<close>: the left operand when it is truthy, the right one otherwise.\<close>

definition js_or :: "jsval \<Rightarrow> jsval \<Rightarrow> jsval" where
  "js_or a b = (if truthy a then a else b)"

text \<open>Reading a property of an object literal; an absent property is \<open>undefined\<close>.\<close>

definition get_prop :: "(string \<times> jsval) list \<Rightarrow> string \<Rightarrow> jsval" where
  "get_prop obj k = (case map_of obj k of None \<Rightarrow> JUndefined | Some v \<Rightarrow> v)"

text \<open>
  \<open>req.body\<close> after the JSON middleware: the value of each property, \<open>undefined\<close>
  for the properties the client did not send. \<open>no_fields\<close> is the body \<open>{}\<close>.
\<close>

type_synonym reqbody = "string \<Rightarrow> jsval"

definition no_fields :: reqbody where
  "no_fields k = JUndefined"

datatype exn = TypeError | BSONError

text \<open>
  The unary plus of \<open>age: +age\<close>. Its numeric result is kept symbolic, as the number
  that the conversion gives for the value. The conversion throws a TypeError when it
  finds no callable method to turn the value into a primitive. For a value parsed from
  JSON that is the case for an object with an own property \<open>toString\<close>, which then
  holds a value and not a function (the inherited \<open>valueOf\<close> returns the object
  itself, an own \<open>valueOf\<close> is not callable either), and for an array with such
  an element, since the array is converted by \<open>join\<close>, which converts each element
  other than null to a string.
\<close>

datatype jsnum = ToNumber jsval

fun to_primitive_throws :: "jsval \<Rightarrow> bool" where
  "to_primitive_throws (JObj kvs) = (''toString'' \<in> fst ` set kvs)"
| "to_primitive_throws (JArr xs) = list_ex to_primitive_throws xs"
| "to_primitive_throws JUndefined = False"
| "to_primitive_throws JNull = False"
| "to_primitive_throws (JBool b) = False"
| "to_primitive_throws (JNum r) = False"
| "to_primitive_throws (JStr s) = False"

definition unary_plus :: "jsval \<Rightarrow> exn + jsnum" where
  "unary_plus v = (if to_primitive_throws v then Inl TypeError else Inr (ToNumber v))"

subsection \<open>Strings\<close>

text \<open>
  The server calls two methods of \<open>String.prototype\<close>, \<open>trim\<close> and
  \<open>toLowerCase\<close>. Which characters are white space and what the lower case of a
  character is, is laid down in the Unicode tables of the engine and not in the
  program: the two methods are parameters of the model, and what is proved of the
  handlers holds for every pair of them.
\<close>

record builtins =
  trim :: "string \<Rightarrow> string"
  toLowerCase :: "string \<Rightarrow> string"

section \<open>Documents and collections\<close>

text \<open>
  An \<open>ObjectId\<close> is identified with its 24 hexadecimal digits in lower case, so
  that \<open>a.equals(b)\<close> is equality; \<open>lower_hex\<close> brings the digits A to F to
  lower case.
\<close>

datatype oid = ObjectId string

definition lower_char :: "char \<Rightarrow> char" where
  "lower_char c =
     (case map_of (zip ''ABCDEFGHIJKLMNOPQRSTUVWXYZ'' ''abcdefghijklmnopqrstuvwxyz'') c of
        Some l \<Rightarrow> l
      | None \<Rightarrow> c)"

definition lower_hex :: "string \<Rightarrow> string" where
  "lower_hex s = map lower_char s"

definition is_hex :: "char \<Rightarrow> bool" where
  "is_hex c = (c \<in> set ''0123456789abcdefABCDEF'')"

text \<open>
  The driver's \<open>ObjectId.createFromHexString\<close>: it accepts exactly the strings of
  24 hexadecimal digits and throws on every other argument.
\<close>

definition createFromHexString :: "jsval \<Rightarrow> exn + oid" where
  "createFromHexString v =
     (case v of
        JStr s \<Rightarrow> if length s = 24 \<and> list_all is_hex s
                  then Inr (ObjectId (lower_hex s)) else Inl BSONError
      | _ \<Rightarrow> Inl BSONError)"

record address =
  street :: jsval
  city :: jsval
  zipCode :: jsval

text \<open>
  A user document as the server writes and reads it: \<open>user_id\<close> is the field
  \<open>_id\<close>. A post document: \<open>post_id\<close> is \<open>_id\<close>, and \<open>userId\<close> is
  \<open>None\<close> when the field holds no identifier (\<open>undefined\<close> is stored as null).
\<close>

record user =
  user_id :: oid
  name :: jsval
  email :: string
  age :: jsnum
  address :: address

record post =
  post_id :: oid
  userId :: "oid option"
  title :: jsval
  body :: jsval

text \<open>
  What \<open>insertOne\<close> writes for a user object: a field that holds \<open>undefined\<close>
  is stored as null. Of the fields of the object built by the handler only
  \<open>name\<close> can hold \<open>undefined\<close>.
\<close>

definition stored :: "user \<Rightarrow> user" where
  "stored u = u\<lparr>name := (if name u = JUndefined then JNull else name u)\<rparr>"

text \<open>
  The two collection handles \<open>users\<close> and \<open>posts\<close>. A collection is the list
  of its documents in the order \<open>find({}).toArray()\<close> returns them; an insert
  appends. The store is taken to answer every call; the identifier of an inserted
  document is drawn by the driver and is an argument of the operation that inserts.
\<close>

record db =
  users :: "user list"
  posts :: "post list"

text \<open>
  The JSON bodies the handlers send: \<open>{error: text}\<close>, \<open>{error: err.message}\<close>
  for a caught exception, \<open>{success: true, user}\<close>, \<open>{success: true, id}\<close>,
  \<open>{success: true}\<close>, and the two joined listings.
\<close>

datatype payload =
    ErrorBody string
  | ErrorMessage exn
  | UserCreated user
  | PostCreated oid
  | SuccessTrue
  | UsersWithPosts "(user \<times> post list) list"
  | PostsWithUser "(post \<times> user option) list"

text \<open>A response: the status code (200 when the handler sets none) and the JSON body.\<close>

datatype response = Response nat payload

section \<open>POST /api/users\<close>

text \<open>
  \<open>let { email = '' } = req.body; email = email.trim().toLowerCase()\<close>: the
  default applies to \<open>undefined\<close> only, and a value that is not a string has no
  \<open>trim\<close> method, which throws a TypeError.
\<close>

definition normalize_email :: "builtins \<Rightarrow> jsval \<Rightarrow> exn + string" where
  "normalize_email js v =
     (case (if v = JUndefined then JStr [] else v) of
        JStr s \<Rightarrow> Inr (toLowerCase js (trim js s))
      | _ \<Rightarrow> Inl TypeError)"

text \<open>
  The address conditional with both of its branches; the else branch reads the fields
  of the object \<open>address = {}\<close> assigned just before.
\<close>

definition build_address :: "jsval \<Rightarrow> jsval \<Rightarrow> jsval \<Rightarrow> address" where
  "build_address st ci zc =
     (let address0 = [] in
      if truthy (js_or (js_or st ci) zc)
      then \<lparr>street = js_or st (JStr []), city = js_or ci (JStr []), zipCode = js_or zc (JStr [])\<rparr>
      else \<lparr>street = js_or (get_prop address0 ''street'') (JStr []),
            city = js_or (get_prop address0 ''city'') (JStr []),
            zipCode = js_or (get_prop address0 ''zipCode'') (JStr [])\<rparr>)"

text \<open>
  The body of the \<open>try\<close> block; \<open>nid\<close> is the \<open>insertedId\<close> of the insert.
  The object \<open>user\<close> is built field by field, and \<open>+age\<close> can throw there,
  before anything is inserted. The response carries the object as the handler holds
  it; the collection receives what the driver writes for it.
\<close>

definition post_api_users_try :: "builtins \<Rightarrow> reqbody \<Rightarrow> oid \<Rightarrow> db \<Rightarrow> exn + (response \<times> db)" where
  "post_api_users_try js b nid d =
     (case normalize_email js (b ''email'') of
        Inl e \<Rightarrow> Inl e
      | Inr em \<Rightarrow>
          (case find (\<lambda>u. email u = em) (users d) of
             Some exists \<Rightarrow> Inr (Response 400 (ErrorBody ''Email already exists''), d)
           | None \<Rightarrow>
               (let addr = build_address (b ''street'') (b ''city'') (b ''zipCode'')
                in case unary_plus (b ''age'') of
                     Inl e \<Rightarrow> Inl e
                   | Inr n \<Rightarrow>
                       (let usr = \<lparr>user_id = nid, name = b ''name'', email = em,
                                   age = n, address = addr\<rparr>
                        in Inr (Response 200 (UserCreated usr),
                                d\<lparr>users := users d @ [stored usr]\<rparr>)))))"

definition post_api_users :: "builtins \<Rightarrow> reqbody \<Rightarrow> oid \<Rightarrow> db \<Rightarrow> response \<times> db" where
  "post_api_users js b nid d =
     (case post_api_users_try js b nid d of
        Inl e \<Rightarrow> (Response 500 (ErrorBody ''Failed to add user''), d)
      | Inr r \<Rightarrow> r)"

text \<open>The single rule of the specification: each provided field, or the empty string.\<close>

definition address_rule :: "jsval \<Rightarrow> jsval \<Rightarrow> jsval \<Rightarrow> address" where
  "address_rule st ci zc =
     \<lparr>street = js_or st (JStr []), city = js_or ci (JStr []), zipCode = js_or zc (JStr [])\<rparr>"

section \<open>Startup seed\<close>

text \<open>
  \<open>xs[i]\<close> is \<open>undefined\<close> beyond the end of the array; \<open>xs[i]?._id\<close> is then
  \<open>undefined\<close>, whereas \<open>xs[i]._id\<close> throws a TypeError.
\<close>

definition at_index :: "'a list \<Rightarrow> nat \<Rightarrow> 'a option" where
  "at_index xs i = (if i < length xs then Some (xs ! i) else None)"

text \<open>The two titles with a typographic apostrophe (U+2019), as UTF-8 bytes.\<close>

definition sophia_title :: string where
  "sophia_title = ''Sophia'' @ [CHR 0xE2, CHR 0x80, CHR 0x99] @ ''s Cooking''"

definition noah_title :: string where
  "noah_title = ''Noah'' @ [CHR 0xE2, CHR 0x80, CHR 0x99] @ ''s Hike''"

definition sample_posts :: "(nat \<Rightarrow> oid) \<Rightarrow> oid \<Rightarrow> user list \<Rightarrow> post list" where
  "sample_posts gen first_id userList =
     [\<lparr>post_id = gen 0, userId = Some first_id,
       title = JStr ''Hello from Emma'', body = JStr ''Emma post content''\<rparr>,
      \<lparr>post_id = gen 1, userId = map_option user_id (at_index userList 1),
       title = JStr ''Liam on the Beach'', body = JStr ''Surfing diary''\<rparr>,
      \<lparr>post_id = gen 2, userId = map_option user_id (at_index userList 2),
       title = JStr sophia_title,
       body = JStr ''Today I made pasta''\<rparr>,
      \<lparr>post_id = gen 3, userId = map_option user_id (at_index userList 3),
       title = JStr noah_title,
       body = JStr ''Reached mountain top!''\<rparr>]"

text \<open>
  The function run once at startup, after the connection is made. \<open>gen i\<close> is the
  identifier the driver gives the \<open>i\<close>-th document of the \<open>insertMany\<close>.
\<close>

definition seed :: "(nat \<Rightarrow> oid) \<Rightarrow> db \<Rightarrow> exn + db" where
  "seed gen d =
     (if length (posts d) = 0 then
        (let userList = users d in
         if length userList \<noteq> 0 then
           (case at_index userList 0 of
              None \<Rightarrow> Inl TypeError
            | Some u0 \<Rightarrow> Inr (d\<lparr>posts := posts d @ sample_posts gen (user_id u0) userList\<rparr>))
         else Inr d)
      else Inr d)"

section \<open>GET /api/users and GET /api/posts\<close>

definition get_api_users :: "db \<Rightarrow> response" where
  "get_api_users d =
     (let usersList = users d; postsList = posts d
      in Response 200 (UsersWithPosts
           (map (\<lambda>u. (u, filter (\<lambda>p. userId p = Some (user_id u)) postsList)) usersList)))"

definition get_api_posts :: "db \<Rightarrow> response" where
  "get_api_posts d =
     (let postsList = posts d; usersList = users d
      in Response 200 (PostsWithUser
           (map (\<lambda>p. (p, find (\<lambda>u. userId p = Some (user_id u)) usersList)) postsList)))"

section \<open>POST /api/posts\<close>



section \<open>DELETE /api/posts/:id\<close>

text \<open>
  \<open>deleteOne({ _id })\<close>: the first document with the identifier is removed; the
  result is the collection and \<open>deletedCount\<close>.
\<close>

fun deleteOne :: "oid \<Rightarrow> post list \<Rightarrow> post list \<times> nat" where
  "deleteOne i [] = ([], 0)"
| "deleteOne i (p # ps) =
     (if post_id p = i then (ps, 1)
      else (case deleteOne i ps of (ps', n) \<Rightarrow> (p # ps', n)))"

definition delete_api_posts_try :: "string \<Rightarrow> db \<Rightarrow> exn + (response \<times> db)" where
  "delete_api_posts_try ident d =
     (case createFromHexString (JStr ident) of
        Inl e \<Rightarrow> Inl e
      | Inr i \<Rightarrow>
          (case deleteOne i (posts d) of
             (ps', deletedCount) \<Rightarrow>
               if deletedCount \<noteq> 0 then Inr (Response 200 SuccessTrue, d\<lparr>posts := ps'\<rparr>)
               else Inr (Response 404 (ErrorBody ''Not found''), d\<lparr>posts := ps'\<rparr>)))"

definition delete_api_posts :: "string \<Rightarrow> db \<Rightarrow> response \<times> db" where
  "delete_api_posts ident d =
     (case delete_api_posts_try ident d of
        Inl err \<Rightarrow> (Response 400 (ErrorBody ''Invalid ID''), d)
      | Inr r \<Rightarrow> r)"

section \<open>PATCH /api/posts/:id/assign\<close>

text \<open>
  \<open>updateOne({ _id }, { $set: { userId } })\<close>: the first document with the
  identifier is the one matched; \<open>modifiedCount\<close> is 1 when the update changed
  it and 0 when the field already held the value or no document matched.
\<close>

fun updateOne :: "oid \<Rightarrow> oid \<Rightarrow> post list \<Rightarrow> post list \<times> nat" where
  "updateOne i uid [] = ([], 0)"
| "updateOne i uid (p # ps) =
     (if post_id p = i
      then (if userId p = Some uid then (p # ps, 0) else (p\<lparr>userId := Some uid\<rparr> # ps, 1))
      else (case updateOne i uid ps of (ps', n) \<Rightarrow> (p # ps', n)))"

definition patch_api_posts_assign_try :: "string \<Rightarrow> reqbody \<Rightarrow> db \<Rightarrow> exn + (response \<times> db)" where
  "patch_api_posts_assign_try postId b d =
     (case createFromHexString (b ''userId'') of
        Inl e \<Rightarrow> Inl e
      | Inr uid \<Rightarrow>
          (case find (\<lambda>u. user_id u = uid) (users d) of
             None \<Rightarrow> Inr (Response 404 (ErrorBody ''User not found''), d)
           | Some usr \<Rightarrow>
               (case createFromHexString (JStr postId) of
                  Inl e \<Rightarrow> Inl e
                | Inr i \<Rightarrow>
                    (case updateOne i (user_id usr) (posts d) of
                       (ps', modifiedCount) \<Rightarrow>
                         if modifiedCount = 1
                         then Inr (Response 200 SuccessTrue, d\<lparr>posts := ps'\<rparr>)
                         else Inr (Response 404 (ErrorBody ''Post not found or not changed''),
                                   d\<lparr>posts := ps'\<rparr>)))))"

definition patch_api_posts_assign :: "string \<Rightarrow> reqbody \<Rightarrow> db \<Rightarrow> response \<times> db" where
  "patch_api_posts_assign postId b d =
     (case patch_api_posts_assign_try postId b d of
        Inl err \<Rightarrow> (Response 400 (ErrorBody ''Invalid ID or bad data''), d)
      | Inr r \<Rightarrow> r)"

section \<open>The demo script\<close>

text \<open>
  The class \<open>MongoDemo\<close>. What the script does to the documents is not traced;
  the model follows its control flow and what it prints. A \<open>point\<close> is a place
  where the script can throw: each awaited driver call, the client constructor, and
  the two table renderings that read fields of the results.
\<close>

datatype point =
    NewMongoClient | ClientConnect | ClientClose
  | ClearDocuments
  | CreateIndexEmail | CreateIndexAge | CreateIndexCity | CreateIndexLocation
  | InsertOne | InsertMany
  | FindAll | FindYoung | FindNames | FindOneJohn | FindCity | CountDocuments
  | UpdateJohn | UpdateYoung | UpsertNewUser
  | Aggregate | AggregationTable
  | FindNear | NearbyTable | AggregateGeoNear
  | DeleteNewUser | DeleteYoung
  | FinalCount

text \<open>
  A printed line: which helper printed it and its text up to the first interpolated
  value. \<open>Section\<close> holds the title as passed to \<open>section\<close>.
\<close>

datatype entry =
    Section string
  | Success string
  | Info string
  | Warn string
  | ErrorLog string
  | Plain string
  | Table

text \<open>
  The environment of a run: the points that throw, and whether the upsert of
  \<open>updateDocuments\<close> reports an \<open>upsertedId\<close>.
\<close>

record env =
  fails :: "point \<Rightarrow> bool"
  upsertedId :: bool





text \<open>The outcome of a piece of script: the lines printed, and whether it threw.\<close>

type_synonym outcome = "entry list \<times> bool"

definition await :: "env \<Rightarrow> point \<Rightarrow> outcome" where
  "await e p = ([], fails e p)"

definition say :: "entry \<Rightarrow> outcome" where
  "say x = ([x], False)"

text \<open>Statements in sequence: the first that throws ends the sequence.\<close>

fun seq :: "outcome list \<Rightarrow> outcome" where
  "seq [] = ([], False)"
| "seq ((l, threw) # rest) =
     (if threw then (l, True) else (case seq rest of (l', t) \<Rightarrow> (l @ l', t)))"

text \<open>
  \<open>try { body } catch (error) { errorLog(msg, error); [throw error] }\<close>: the
  catch block prints the message and, when \<open>rethrow\<close>, throws again.
\<close>

definition try_catch :: "outcome \<Rightarrow> string \<Rightarrow> bool \<Rightarrow> outcome" where
  "try_catch b msg rethrow =
     (case b of (l, threw) \<Rightarrow> if threw then (l @ [ErrorLog msg], rethrow) else (l, False))"

text \<open>
  \<open>connect\<close> also says whether \<open>this.client\<close> was assigned, which happens
  when the constructor returns.
\<close>

definition connect :: "env \<Rightarrow> outcome \<times> bool" where
  "connect e =
     (try_catch (seq [await e NewMongoClient, await e ClientConnect,
                      say (Success ''Connected to MongoDB''),
                      say (Info ''Database   : ''), say (Info ''Collection : '')])
        ''Connection error'' True,
      \<not> fails e NewMongoClient)"










text \<open>Environments in which a single point throws, and one in which none does.\<close>

definition only :: "point \<Rightarrow> env" where
  "only p = \<lparr>fails = (\<lambda>q. q = p), upsertedId = True\<rparr>"

definition all_well :: env where
  "all_well = \<lparr>fails = (\<lambda>q. False), upsertedId = True\<rparr>"




definition connect_fails :: "env \<Rightarrow> bool" where
  "connect_fails e = (fails e NewMongoClient \<or> fails e ClientConnect)"








section \<open>Example states and requests\<close>

text \<open>
  An instance of the two string methods for the examples: on a string of ASCII
  characters, which is all the examples send, it removes the white space at both ends
  and maps A to Z to lower case, as the methods of the engine do there.
\<close>

definition is_space :: "char \<Rightarrow> bool" where
  "is_space c = (c \<in> set [CHR 0x09, CHR 0x0A, CHR 0x0B, CHR 0x0C, CHR 0x0D, CHR 0x20])"

definition ascii_builtins :: builtins where
  "ascii_builtins =
     \<lparr>trim = (\<lambda>s. rev (dropWhile is_space (rev (dropWhile is_space s)))),
      toLowerCase = map lower_char\<rparr>"

definition emma :: user where
  "emma = \<lparr>user_id = ObjectId ''650000000000000000000001'', name = JStr ''Emma'',
     email = ''emma@example.com'', age = ToNumber (JNum 29),
     address = \<lparr>street = JStr [], city = JStr ''Leeds'', zipCode = JStr []\<rparr>\<rparr>"

definition liam :: user where
  "liam = \<lparr>user_id = ObjectId ''650000000000000000000002'', name = JStr ''Liam'',
     email = ''liam@example.com'', age = ToNumber (JNum 34),
     address = \<lparr>street = JStr [], city = JStr [], zipCode = JStr []\<rparr>\<rparr>"

definition sophia :: user where
  "sophia = \<lparr>user_id = ObjectId ''650000000000000000000003'', name = JStr ''Sophia'',
     email = ''sophia@example.com'', age = ToNumber (JNum 41),
     address = \<lparr>street = JStr [], city = JStr [], zipCode = JStr []\<rparr>\<rparr>"

definition noah :: user where
  "noah = \<lparr>user_id = ObjectId ''650000000000000000000004'', name = JStr ''Noah'',
     email = ''noah@example.com'', age = ToNumber (JNum 23),
     address = \<lparr>street = JStr [], city = JStr [], zipCode = JStr []\<rparr>\<rparr>"

definition empty_db :: db where
  "empty_db = \<lparr>users = [], posts = []\<rparr>"

definition four_users_db :: db where
  "four_users_db = \<lparr>users = [emma, liam, sophia, noah], posts = []\<rparr>"

definition sample_gen :: "nat \<Rightarrow> oid" where
  "sample_gen i =
     (if i = 0 then ObjectId ''66000000000000000000000a''
      else if i = 1 then ObjectId ''66000000000000000000000b''
      else if i = 2 then ObjectId ''66000000000000000000000c''
      else ObjectId ''66000000000000000000000d'')"

definition new_id :: oid where
  "new_id = ObjectId ''670000000000000000000001''"

definition emma_post :: post where
  "emma_post = \<lparr>post_id = ObjectId ''66000000000000000000000a'',
     userId = Some (ObjectId ''650000000000000000000001''),
     title = JStr ''Hello from Emma'', body = JStr ''Emma post content''\<rparr>"

definition liam_post :: post where
  "liam_post = \<lparr>post_id = ObjectId ''66000000000000000000000b'',
     userId = Some (ObjectId ''650000000000000000000002''),
     title = JStr ''Liam on the Beach'', body = JStr ''Surfing diary''\<rparr>"

definition blog_db :: db where
  "blog_db = \<lparr>users = [emma, liam], posts = [emma_post, liam_post]\<rparr>"


definition olivia_request :: reqbody where
  "olivia_request = no_fields(''name'' := JStr ''Olivia'', ''email'' := JStr '' Olivia@Example.com'',
     ''age'' := JNum 31, ''city'' := JStr ''York'')"





definition assign_to_liam :: reqbody where
  "assign_to_liam = no_fields(''userId'' := JStr ''650000000000000000000002'')"

definition two_users_db :: db where
  "two_users_db = \<lparr>users = [emma, liam], posts = []\<rparr>"


definition olivia :: user where
  "olivia = \<lparr>user_id = new_id, name = JStr ''Olivia'', email = ''olivia@example.com'',
     age = ToNumber (JNum 31),
     address = \<lparr>street = JStr [], city = JStr ''York'', zipCode = JStr []\<rparr>\<rparr>"



section \<open>Properties\<close>

subsection \<open>Auxiliary facts about the operations\<close>

lemma build_address_rule: "build_address st ci zc = address_rule st ci zc"
  by (auto simp: build_address_def address_rule_def js_or_def get_prop_def split: if_splits)


lemma find_email_None: "em \<notin> email ` set us \<Longrightarrow> find (\<lambda>u. email u = em) us = None"
  by (auto simp: find_None_iff)

lemma find_email_Some: "em \<in> email ` set us \<Longrightarrow> \<exists>u. find (\<lambda>u. email u = em) us = Some u"
  by (cases "find (\<lambda>u. email u = em) us") (auto simp: find_None_iff)

lemma post_api_users_duplicate:
  assumes "normalize_email js (b ''email'') = Inr em" and "em \<in> email ` set (users d)"
  shows "post_api_users js b nid d = (Response 400 (ErrorBody ''Email already exists''), d)"
proof -
  from find_email_Some [OF assms(2)] obtain u where "find (\<lambda>u. email u = em) (users d) = Some u" ..
  with assms(1) show ?thesis
    by (simp add: post_api_users_def post_api_users_try_def)
qed

lemma post_api_users_fresh:
  assumes "normalize_email js (b ''email'') = Inr em" and "em \<notin> email ` set (users d)"
    and "\<not> to_primitive_throws (b ''age'')"
  shows "post_api_users js b nid d =
     (Response 200 (UserCreated \<lparr>user_id = nid, name = b ''name'', email = em,
          age = ToNumber (b ''age''),
          address = build_address (b ''street'') (b ''city'') (b ''zipCode'')\<rparr>),
      d\<lparr>users := users d @ [stored \<lparr>user_id = nid, name = b ''name'', email = em,
          age = ToNumber (b ''age''),
          address = build_address (b ''street'') (b ''city'') (b ''zipCode'')\<rparr>]\<rparr>)"
  using assms(1,3) find_email_None [OF assms(2)]
  by (simp add: post_api_users_def post_api_users_try_def unary_plus_def Let_def)

lemma post_api_users_bad_age:
  assumes "normalize_email js (b ''email'') = Inr em" and "em \<notin> email ` set (users d)"
    and "to_primitive_throws (b ''age'')"
  shows "post_api_users js b nid d = (Response 500 (ErrorBody ''Failed to add user''), d)"
  using assms(1,3) find_email_None [OF assms(2)]
  by (simp add: post_api_users_def post_api_users_try_def unary_plus_def Let_def)

lemma post_api_users_type_error:
  assumes "normalize_email js (b ''email'') = Inl e"
  shows "post_api_users js b nid d = (Response 500 (ErrorBody ''Failed to add user''), d)"
  using assms by (simp add: post_api_users_def post_api_users_try_def)

lemma stored_fields:
  "user_id (stored u) = user_id u" "email (stored u) = email u" "age (stored u) = age u"
  "address (stored u) = address u"
  by (simp_all add: stored_def)

lemma deleteOne_absent: "i \<notin> post_id ` set ps \<Longrightarrow> deleteOne i ps = (ps, 0)"
  by (induction ps) auto

lemma deleteOne_present:
  "i \<in> post_id ` set ps \<Longrightarrow>
   \<exists>pre p suf. ps = pre @ p # suf \<and> post_id p = i \<and> i \<notin> post_id ` set pre
      \<and> deleteOne i ps = (pre @ suf, 1)"
proof (induction ps)
  case Nil
  then show ?case by simp
next
  case (Cons q qs)
  show ?case
  proof (cases "post_id q = i")
    case True
    then have "q # qs = [] @ q # qs \<and> post_id q = i \<and> i \<notin> post_id ` set []
       \<and> deleteOne i (q # qs) = ([] @ qs, 1)" by simp
    then show ?thesis by blast
  next
    case False
    with Cons.prems have "i \<in> post_id ` set qs" by auto
    from Cons.IH [OF this] obtain pre p suf where
      h: "qs = pre @ p # suf" "post_id p = i" "i \<notin> post_id ` set pre"
         "deleteOne i qs = (pre @ suf, 1)" by blast
    with False have "q # qs = (q # pre) @ p # suf \<and> post_id p = i
       \<and> i \<notin> post_id ` set (q # pre) \<and> deleteOne i (q # qs) = ((q # pre) @ suf, 1)"
      by auto
    then show ?thesis by blast
  qed
qed

lemma updateOne_absent: "i \<notin> post_id ` set ps \<Longrightarrow> updateOne i uid ps = (ps, 0)"
  by (induction ps) auto

lemma updateOne_present:
  "i \<in> post_id ` set ps \<Longrightarrow>
   \<exists>pre p suf. ps = pre @ p # suf \<and> post_id p = i \<and> i \<notin> post_id ` set pre
      \<and> updateOne i uid ps =
          (if userId p = Some uid then (ps, 0) else (pre @ p\<lparr>userId := Some uid\<rparr> # suf, 1))"
proof (induction ps)
  case Nil
  then show ?case by simp
next
  case (Cons q qs)
  show ?case
  proof (cases "post_id q = i")
    case True
    then have "q # qs = [] @ q # qs \<and> post_id q = i \<and> i \<notin> post_id ` set []
       \<and> updateOne i uid (q # qs) =
          (if userId q = Some uid then (q # qs, 0) else ([] @ q\<lparr>userId := Some uid\<rparr> # qs, 1))"
      by simp
    then show ?thesis by blast
  next
    case False
    with Cons.prems have "i \<in> post_id ` set qs" by auto
    from Cons.IH [OF this] obtain pre p suf where
      h: "qs = pre @ p # suf" "post_id p = i" "i \<notin> post_id ` set pre"
         "updateOne i uid qs =
          (if userId p = Some uid then (qs, 0) else (pre @ p\<lparr>userId := Some uid\<rparr> # suf, 1))"
      by blast
    with False have "q # qs = (q # pre) @ p # suf \<and> post_id p = i
       \<and> i \<notin> post_id ` set (q # pre) \<and> updateOne i uid (q # qs) =
          (if userId p = Some uid then (q # qs, 0)
           else ((q # pre) @ p\<lparr>userId := Some uid\<rparr> # suf, 1))"
      by auto
    then show ?thesis by blast
  qed
qed


lemma find_user_id_None: "uid \<notin> user_id ` set us \<Longrightarrow> find (\<lambda>u. user_id u = uid) us = None"
  by (auto simp: find_None_iff)

lemma find_user_id_Some:
  "uid \<in> user_id ` set us \<Longrightarrow> \<exists>u. find (\<lambda>u. user_id u = uid) us = Some u \<and> user_id u = uid"
  by (cases "find (\<lambda>u. user_id u = uid) us") (auto simp: find_None_iff dest: find_Some_iff [THEN iffD1])

lemma post_api_users_success:
  assumes "post_api_users js b nid d = (Response 200 pl, d')"
  shows "\<exists>em. normalize_email js (b ''email'') = Inr em \<and> em \<notin> email ` set (users d)
     \<and> \<not> to_primitive_throws (b ''age'')"
proof (cases "normalize_email js (b ''email'')")
  case (Inl e)
  with assms show ?thesis by (simp add: post_api_users_type_error)
next
  case (Inr em)
  show ?thesis
  proof (cases "em \<in> email ` set (users d)")
    case True
    with Inr assms show ?thesis by (simp add: post_api_users_duplicate)
  next
    case False
    show ?thesis
    proof (cases "to_primitive_throws (b ''age'')")
      case True
      with Inr False assms show ?thesis by (simp add: post_api_users_bad_age)
    next
      case no_throw: False
      with Inr False show ?thesis by simp
    qed
  qed
qed

lemmas example_defs = normalize_email_def ascii_builtins_def is_space_def lower_char_def
  no_fields_def four_users_db_def emma_def liam_def sophia_def noah_def new_id_def
  olivia_request_def


lemma record_posts_same: "d\<lparr>posts := posts d\<rparr> = (d::db)"
  by simp





lemma delete_api_posts_absent:
  assumes "createFromHexString (JStr ident) = Inr i" and "i \<notin> post_id ` set (posts d)"
  shows "delete_api_posts ident d = (Response 404 (ErrorBody ''Not found''), d)"
  using assms(1) deleteOne_absent [OF assms(2)]
  by (simp add: delete_api_posts_def delete_api_posts_try_def)

lemma delete_api_posts_present:
  assumes "createFromHexString (JStr ident) = Inr i" and "i \<in> post_id ` set (posts d)"
  shows "\<exists>pre p suf. posts d = pre @ p # suf \<and> post_id p = i \<and> i \<notin> post_id ` set pre
     \<and> delete_api_posts ident d = (Response 200 SuccessTrue, d\<lparr>posts := pre @ suf\<rparr>)"
proof -
  from deleteOne_present [OF assms(2)] obtain pre p suf where
    h: "posts d = pre @ p # suf" "post_id p = i" "i \<notin> post_id ` set pre"
       "deleteOne i (posts d) = (pre @ suf, 1)" by blast
  from assms(1) h(4) have "delete_api_posts ident d = (Response 200 SuccessTrue, d\<lparr>posts := pre @ suf\<rparr>)"
    by (simp add: delete_api_posts_def delete_api_posts_try_def)
  with h show ?thesis by blast
qed

lemma patch_api_posts_assign_bad_user_id:
  assumes "createFromHexString (b ''userId'') = Inl e"
  shows "patch_api_posts_assign postId b d = (Response 400 (ErrorBody ''Invalid ID or bad data''), d)"
  using assms by (simp add: patch_api_posts_assign_def patch_api_posts_assign_try_def)

lemma patch_api_posts_assign_unknown_user:
  assumes "createFromHexString (b ''userId'') = Inr uid" and "uid \<notin> user_id ` set (users d)"
  shows "patch_api_posts_assign postId b d = (Response 404 (ErrorBody ''User not found''), d)"
  using assms(1) find_user_id_None [OF assms(2)]
  by (simp add: patch_api_posts_assign_def patch_api_posts_assign_try_def)

lemma patch_api_posts_assign_bad_post_id:
  assumes "createFromHexString (b ''userId'') = Inr uid" and "uid \<in> user_id ` set (users d)"
    and "createFromHexString (JStr postId) = Inl e"
  shows "patch_api_posts_assign postId b d = (Response 400 (ErrorBody ''Invalid ID or bad data''), d)"
proof -
  from find_user_id_Some [OF assms(2)] obtain u where
    "find (\<lambda>u. user_id u = uid) (users d) = Some u" "user_id u = uid" by blast
  with assms show ?thesis
    by (simp add: patch_api_posts_assign_def patch_api_posts_assign_try_def)
qed

lemma patch_api_posts_assign_update:
  assumes "createFromHexString (b ''userId'') = Inr uid" and "uid \<in> user_id ` set (users d)"
    and "createFromHexString (JStr postId) = Inr i"
    and "updateOne i uid (posts d) = (ps', n)"
  shows "patch_api_posts_assign postId b d =
     (if n = 1 then (Response 200 SuccessTrue, d\<lparr>posts := ps'\<rparr>)
      else (Response 404 (ErrorBody ''Post not found or not changed''), d\<lparr>posts := ps'\<rparr>))"
proof -
  from find_user_id_Some [OF assms(2)] obtain u where
    "find (\<lambda>u. user_id u = uid) (users d) = Some u" "user_id u = uid" by blast
  with assms show ?thesis
    by (simp add: patch_api_posts_assign_def patch_api_posts_assign_try_def)
qed

lemma updateOne_count: "updateOne i uid ps = (ps', n) \<Longrightarrow> n = 0 \<or> n = 1"
  by (induction ps arbitrary: ps' n) (auto split: if_splits prod.splits)

lemma updateOne_unchanged: "updateOne i uid ps = (ps', 0) \<Longrightarrow> ps' = ps"
  by (induction ps arbitrary: ps') (auto split: if_splits prod.splits)

lemma updateOne_again: "updateOne i uid ps = (ps', n) \<Longrightarrow> updateOne i uid ps' = (ps', 0)"
  by (induction ps arbitrary: ps' n) (auto split: if_splits prod.splits)

lemma updateOne_already:
  "find (\<lambda>p. post_id p = i) ps = Some p \<Longrightarrow> userId p = Some uid \<Longrightarrow> updateOne i uid ps = (ps, 0)"
  by (induction ps) (auto split: if_splits)

lemma patch_api_posts_assign_success:
  assumes ok: "patch_api_posts_assign postId b d = (Response 200 pl, d')"
  shows "\<exists>uid i. createFromHexString (b ''userId'') = Inr uid \<and> uid \<in> user_id ` set (users d)
     \<and> createFromHexString (JStr postId) = Inr i
     \<and> (\<exists>ps'. updateOne i uid (posts d) = (ps', 1) \<and> d' = d\<lparr>posts := ps'\<rparr>)"
proof (cases "createFromHexString (b ''userId'')")
  case (Inl e)
  with ok show ?thesis by (simp add: patch_api_posts_assign_bad_user_id)
next
  case (Inr uid)
  show ?thesis
  proof (cases "uid \<in> user_id ` set (users d)")
    case False
    with Inr ok show ?thesis by (simp add: patch_api_posts_assign_unknown_user)
  next
    case True
    show ?thesis
    proof (cases "createFromHexString (JStr postId)")
      case (Inl e)
      with Inr True ok show ?thesis by (simp add: patch_api_posts_assign_bad_post_id)
    next
      case i: (Inr i)
      obtain ps' n where u: "updateOne i uid (posts d) = (ps', n)" by (cases "updateOne i uid (posts d)")
      from patch_api_posts_assign_update [where b = b, OF Inr True i u] ok
      have "n = 1 \<and> d' = d\<lparr>posts := ps'\<rparr>" by (auto split: if_splits)
      with u Inr True i show ?thesis by auto
    qed
  qed
qed


lemmas id_defs = createFromHexString_def is_hex_def lower_hex_def lower_char_def no_fields_def

lemmas blog_defs = blog_db_def emma_def liam_def emma_post_def liam_post_def new_id_def

lemma below_four: "i < (4::nat) \<Longrightarrow> i = 0 \<or> i = 1 \<or> i = 2 \<or> i = 3"
  by arith

lemma seed_posts_present: "posts d \<noteq> [] \<Longrightarrow> seed gen d = Inr d"
  by (simp add: seed_def)

lemma seed_no_users: "posts d = [] \<Longrightarrow> users d = [] \<Longrightarrow> seed gen d = Inr d"
  by (simp add: seed_def)

lemma seed_some_users:
  "posts d = [] \<Longrightarrow> users d \<noteq> [] \<Longrightarrow>
   seed gen d = Inr (d\<lparr>posts := sample_posts gen (user_id (users d ! 0)) (users d)\<rparr>)"
  by (simp add: seed_def at_index_def Let_def)

lemma sample_posts_length: "length (sample_posts gen f us) = 4"
  by (simp add: sample_posts_def)

lemma sample_posts_ids: "map post_id (sample_posts gen f us) = [gen 0, gen 1, gen 2, gen 3]"
  by (simp add: sample_posts_def)

lemma sample_posts_refs:
  assumes "us \<noteq> []" and "i < 4"
  shows "userId (sample_posts gen (user_id (us ! 0)) us ! i) = map_option user_id (at_index us i)"
  using below_four [OF assms(2)] assms(1)
  by (auto simp: sample_posts_def at_index_def)

lemma sample_posts_post_id:
  assumes "i < 4"
  shows "post_id (sample_posts gen f us ! i) = gen i"
  using below_four [OF assms] by (auto simp: sample_posts_def)

lemma four_elements: "length xs = 4 \<Longrightarrow> xs = [xs ! 0, xs ! 1, xs ! 2, xs ! 3]"
proof -
  assume l: "length xs = 4"
  then obtain a ys where 1: "xs = a # ys" "length ys = 3" by (cases xs) auto
  then obtain b zs where 2: "ys = b # zs" "length zs = 2" by (cases ys) auto
  then obtain c ws where 3: "zs = c # ws" "length ws = 1" by (cases zs) auto
  then obtain e where 4: "ws = [e]" by (cases ws) auto
  from 1 2 3 4 show ?thesis by simp
qed

lemma find_by_id_distinct:
  assumes "distinct (map user_id us)" and "i < length us"
  shows "find (\<lambda>u. Some (user_id (us ! i)) = Some (user_id u)) us = Some (us ! i)"
proof -
  have "\<exists>j<length us. (Some (user_id (us ! i)) = Some (user_id (us ! j))) \<and> us ! i = us ! j
      \<and> (\<forall>k<j. \<not> (Some (user_id (us ! i)) = Some (user_id (us ! k))))"
  proof (intro exI [of _ i] conjI allI impI)
    show "i < length us" by (rule assms(2))
    show "Some (user_id (us ! i)) = Some (user_id (us ! i))" by simp
    show "us ! i = us ! i" by simp
  next
    fix k assume k: "k < i"
    with assms(2) have kl: "k < length us" by simp
    from assms(1) kl assms(2) k have "map user_id us ! i \<noteq> map user_id us ! k"
      by (simp add: nth_eq_iff_index_eq del: nth_map)
    with kl assms(2) show "\<not> (Some (user_id (us ! i)) = Some (user_id (us ! k)))" by simp
  qed
  then show ?thesis by (simp only: find_Some_iff)
qed

lemmas four_defs = four_users_db_def emma_def liam_def sophia_def noah_def

subsection \<open>Auxiliary facts about the demo script\<close>















lemma connect_client: "\<not> connect_fails e \<Longrightarrow> snd (connect e)"
  by (simp add: connect_def connect_fails_def)









































subsection \<open>POST /api/users: duplicate emails\<close>




subsection \<open>POST /api/users: the address\<close>

text \<open>
  Claim C9. The two branches of the address conditional agree with the single rule
  "each provided field, or the empty string": for all values of street, city and
  zipCode the address built is that of the rule; when none of the three is provided
  the else branch gives three empty strings; and after a successful request the
  document appended to the users collection is the one written for the returned
  user, and both have the address of the rule.
\<close>

theorem address_defaulting_single_rule:
  "build_address st ci zc =
      \<lparr>street = js_or st (JStr []), city = js_or ci (JStr []), zipCode = js_or zc (JStr [])\<rparr>
   \<and> build_address JUndefined JUndefined JUndefined =
      \<lparr>street = JStr [], city = JStr [], zipCode = JStr []\<rparr>
   \<and> (post_api_users js b nid d = (Response 200 (UserCreated u), d') \<longrightarrow>
        users d' = users d @ [stored u] \<and>
        address (stored u) =
          \<lparr>street = js_or (b ''street'') (JStr []), city = js_or (b ''city'') (JStr []),
            zipCode = js_or (b ''zipCode'') (JStr [])\<rparr> \<and>
        address u = \<lparr>street = js_or (b ''street'') (JStr []), city = js_or (b ''city'') (JStr []),
                      zipCode = js_or (b ''zipCode'') (JStr [])\<rparr>)"
proof (intro conjI impI)
  show "build_address st ci zc =
      \<lparr>street = js_or st (JStr []), city = js_or ci (JStr []), zipCode = js_or zc (JStr [])\<rparr>"
    by (simp add: build_address_rule address_rule_def)
  show "build_address JUndefined JUndefined JUndefined =
      \<lparr>street = JStr [], city = JStr [], zipCode = JStr []\<rparr>"
    by (simp add: build_address_rule address_rule_def js_or_def)
next
  assume ok: "post_api_users js b nid d = (Response 200 (UserCreated u), d')"
  from post_api_users_success [OF ok] obtain em where
    em: "normalize_email js (b ''email'') = Inr em" "em \<notin> email ` set (users d)"
        "\<not> to_primitive_throws (b ''age'')" by blast
  from ok post_api_users_fresh [where js = js and b = b and nid = nid, OF em]
  have u: "u = \<lparr>user_id = nid, name = b ''name'', email = em, age = ToNumber (b ''age''),
          address = build_address (b ''street'') (b ''city'') (b ''zipCode'')\<rparr>"
    and d': "d' = d\<lparr>users := users d @ [stored u]\<rparr>"
    by auto
  from d' show "users d' = users d @ [stored u]" by simp
  from u show au: "address u = \<lparr>street = js_or (b ''street'') (JStr []), city = js_or (b ''city'') (JStr []),
                      zipCode = js_or (b ''zipCode'') (JStr [])\<rparr>"
    by (simp add: build_address_rule address_rule_def)
  then show "address (stored u) =
          \<lparr>street = js_or (b ''street'') (JStr []), city = js_or (b ''city'') (JStr []),
            zipCode = js_or (b ''zipCode'') (JStr [])\<rparr>"
    by (simp add: stored_fields)
qed

theorem address_defaulting_single_rule_witness:
  "post_api_users ascii_builtins olivia_request new_id empty_db =
     (Response 200 (UserCreated olivia), \<lparr>users = [olivia], posts = []\<rparr>)
   \<and> address olivia
     = \<lparr>street = js_or (olivia_request ''street'') (JStr []),
        city = js_or (olivia_request ''city'') (JStr []),
        zipCode = js_or (olivia_request ''zipCode'') (JStr [])\<rparr>
   \<and> address olivia = \<lparr>street = JStr [], city = JStr ''York'', zipCode = JStr []\<rparr>"
proof -
  have run: "post_api_users ascii_builtins olivia_request new_id empty_db =
     (Response 200 (UserCreated olivia), \<lparr>users = [olivia], posts = []\<rparr>)"
    by (simp add: post_api_users_def post_api_users_try_def unary_plus_def build_address_def
          js_or_def get_prop_def empty_db_def olivia_def stored_def example_defs Let_def)
  from address_defaulting_single_rule [where js = ascii_builtins and b = olivia_request
      and nid = new_id and d = empty_db and d' = "\<lparr>users = [olivia], posts = []\<rparr>"
      and u = olivia] run
  have "address olivia
     = \<lparr>street = js_or (olivia_request ''street'') (JStr []),
        city = js_or (olivia_request ''city'') (JStr []),
        zipCode = js_or (olivia_request ''zipCode'') (JStr [])\<rparr>"
    by blast
  with run show ?thesis by (simp add: olivia_def)
qed

subsection \<open>Presence checks of the mutating endpoints\<close>




subsection \<open>POST /api/posts\<close>




subsection \<open>DELETE /api/posts/:id\<close>

text \<open>
  Claim C7. For a DELETE /api/posts/:id request with a well-formed identifier: when
  a post has the identifier, exactly one document, the first with that identifier,
  is removed, the posts before and after it stay as they were, and the answer is the
  success envelope; when no post has it, the answer is 404 and the posts collection
  is unchanged.
\<close>

theorem delete_api_posts_wellformed:
  assumes "createFromHexString (JStr ident) = Inr i"
  shows "(i \<in> post_id ` set (posts d) \<longrightarrow>
           (\<exists>pre p suf. posts d = pre @ p # suf \<and> post_id p = i \<and> i \<notin> post_id ` set pre
              \<and> delete_api_posts ident d = (Response 200 SuccessTrue, d\<lparr>posts := pre @ suf\<rparr>)))
       \<and> (i \<notin> post_id ` set (posts d) \<longrightarrow>
           delete_api_posts ident d = (Response 404 (ErrorBody ''Not found''), d))"
  using assms by (simp add: delete_api_posts_absent delete_api_posts_present)

theorem delete_api_posts_wellformed_witness:
  "delete_api_posts ''66000000000000000000000B'' blog_db =
     (Response 200 SuccessTrue, blog_db\<lparr>posts := [emma_post]\<rparr>)
   \<and> delete_api_posts ''66000000000000000000000c'' blog_db =
     (Response 404 (ErrorBody ''Not found''), blog_db)"
proof -
  have i1: "createFromHexString (JStr ''66000000000000000000000B'')
      = Inr (ObjectId ''66000000000000000000000b'')"
    by (simp add: id_defs)
  have m1: "ObjectId ''66000000000000000000000b'' \<in> post_id ` set (posts blog_db)"
    by (simp add: blog_defs)
  from delete_api_posts_wellformed [OF i1, of blog_db] m1 obtain pre p suf where
    h: "posts blog_db = pre @ p # suf" "post_id p = ObjectId ''66000000000000000000000b''"
       "ObjectId ''66000000000000000000000b'' \<notin> post_id ` set pre"
       "delete_api_posts ''66000000000000000000000B'' blog_db
          = (Response 200 SuccessTrue, blog_db\<lparr>posts := pre @ suf\<rparr>)"
    by blast
  from h(1,2,3) have "pre = [emma_post] \<and> suf = []"
    by (auto simp: blog_defs Cons_eq_append_conv)
  with h(4) have a: "delete_api_posts ''66000000000000000000000B'' blog_db =
     (Response 200 SuccessTrue, blog_db\<lparr>posts := [emma_post]\<rparr>)" by simp
  have i2: "createFromHexString (JStr ''66000000000000000000000c'')
      = Inr (ObjectId ''66000000000000000000000c'')"
    by (simp add: id_defs)
  have m2: "ObjectId ''66000000000000000000000c'' \<notin> post_id ` set (posts blog_db)"
    by (simp add: blog_defs)
  from delete_api_posts_wellformed [OF i2, of blog_db] m2
  have b: "delete_api_posts ''66000000000000000000000c'' blog_db =
     (Response 404 (ErrorBody ''Not found''), blog_db)" by blast
  from a b show ?thesis by simp
qed

subsection \<open>PATCH /api/posts/:id/assign\<close>

text \<open>
  Claim C8. A successful assign request leaves the users as they were, and the posts
  differ from the ones before in a single document, the one with the identifier of
  the request, in which only the field userId is set to the user's identifier.
\<close>

theorem patch_assign_frame:
  assumes "patch_api_posts_assign postId b d = (Response 200 pl, d')"
  shows "users d' = users d
    \<and> (\<exists>uid i pre p suf.
          createFromHexString (b ''userId'') = Inr uid
        \<and> createFromHexString (JStr postId) = Inr i
        \<and> posts d = pre @ p # suf \<and> post_id p = i \<and> i \<notin> post_id ` set pre
        \<and> posts d' = pre @ p\<lparr>userId := Some uid\<rparr> # suf)"
proof -
  from patch_api_posts_assign_success [OF assms] obtain uid i ps' where
    h: "createFromHexString (b ''userId'') = Inr uid" "uid \<in> user_id ` set (users d)"
       "createFromHexString (JStr postId) = Inr i"
       "updateOne i uid (posts d) = (ps', 1)" "d' = d\<lparr>posts := ps'\<rparr>"
    by blast
  from h(5) have frame: "users d' = users d" and ps': "posts d' = ps'" by simp_all
  have present: "i \<in> post_id ` set (posts d)"
  proof (rule ccontr)
    assume "i \<notin> post_id ` set (posts d)"
    from updateOne_absent [OF this, of uid] h(4) show False by simp
  qed
  from updateOne_present [OF present, of uid] obtain pre p suf where
    u: "posts d = pre @ p # suf" "post_id p = i" "i \<notin> post_id ` set pre"
       "updateOne i uid (posts d) =
          (if userId p = Some uid then (posts d, 0) else (pre @ p\<lparr>userId := Some uid\<rparr> # suf, 1))"
    by blast
  from u(4) h(4) ps' have "posts d' = pre @ p\<lparr>userId := Some uid\<rparr> # suf"
    by (simp split: if_splits)
  with frame h(1,3) u(1,2,3) show ?thesis by blast
qed

theorem patch_assign_frame_witness:
  "patch_api_posts_assign ''66000000000000000000000a'' assign_to_liam blog_db =
     (Response 200 SuccessTrue,
      blog_db\<lparr>posts := [emma_post\<lparr>userId := Some (ObjectId ''650000000000000000000002'')\<rparr>, liam_post]\<rparr>)
   \<and> users (blog_db\<lparr>posts := [emma_post\<lparr>userId := Some (ObjectId ''650000000000000000000002'')\<rparr>, liam_post]\<rparr>)
       = users blog_db"
proof -
  have run: "patch_api_posts_assign ''66000000000000000000000a'' assign_to_liam blog_db =
     (Response 200 SuccessTrue,
      blog_db\<lparr>posts := [emma_post\<lparr>userId := Some (ObjectId ''650000000000000000000002'')\<rparr>, liam_post]\<rparr>)"
    by (simp add: patch_api_posts_assign_def patch_api_posts_assign_try_def assign_to_liam_def
          id_defs blog_defs)
  from patch_assign_frame [OF run] run show ?thesis by blast
qed

text \<open>
  Claim C10. Assign is not idempotent at the API: when the post and the user exist
  and the post already references the user, the update modifies nothing and the
  answer is 404 "Post not found or not changed"; hence repeating a successful
  assign with the same arguments is answered with 404.
\<close>

theorem patch_assign_not_idempotent:
  "(createFromHexString (b ''userId'') = Inr uid \<and> uid \<in> user_id ` set (users d)
      \<and> createFromHexString (JStr postId) = Inr i
      \<and> find (\<lambda>p. post_id p = i) (posts d) = Some p \<and> userId p = Some uid
     \<longrightarrow> patch_api_posts_assign postId b d =
           (Response 404 (ErrorBody ''Post not found or not changed''), d))
   \<and> (patch_api_posts_assign postId b d = (Response 200 pl, d')
     \<longrightarrow> patch_api_posts_assign postId b d' =
           (Response 404 (ErrorBody ''Post not found or not changed''), d'))"
proof (intro conjI impI)
  assume a: "createFromHexString (b ''userId'') = Inr uid \<and> uid \<in> user_id ` set (users d)
      \<and> createFromHexString (JStr postId) = Inr i
      \<and> find (\<lambda>p. post_id p = i) (posts d) = Some p \<and> userId p = Some uid"
  then have "updateOne i uid (posts d) = (posts d, 0)"
    by (simp add: updateOne_already)
  from patch_api_posts_assign_update [where b = b and postId = postId, OF _ _ _ this] a
  show "patch_api_posts_assign postId b d =
           (Response 404 (ErrorBody ''Post not found or not changed''), d)"
    by simp
next
  assume ok: "patch_api_posts_assign postId b d = (Response 200 pl, d')"
  from patch_api_posts_assign_success [OF ok] obtain uid i ps' where
    h: "createFromHexString (b ''userId'') = Inr uid" "uid \<in> user_id ` set (users d)"
       "createFromHexString (JStr postId) = Inr i"
       "updateOne i uid (posts d) = (ps', 1)" "d' = d\<lparr>posts := ps'\<rparr>"
    by blast
  from h(5) have frame: "users d' = users d" and ps': "posts d' = ps'" by simp_all
  from updateOne_again [OF h(4)] ps' have again: "updateOne i uid (posts d') = (posts d', 0)"
    by simp
  from h(2) frame have "uid \<in> user_id ` set (users d')" by simp
  from patch_api_posts_assign_update [where b = b and postId = postId, OF h(1) this h(3) again]
  show "patch_api_posts_assign postId b d' =
           (Response 404 (ErrorBody ''Post not found or not changed''), d')"
    by simp
qed

theorem patch_assign_not_idempotent_witness:
  "patch_api_posts_assign ''66000000000000000000000b'' assign_to_liam blog_db =
     (Response 404 (ErrorBody ''Post not found or not changed''), blog_db)
   \<and> patch_api_posts_assign ''66000000000000000000000a'' assign_to_liam blog_db =
     (Response 200 SuccessTrue,
      blog_db\<lparr>posts := [emma_post\<lparr>userId := Some (ObjectId ''650000000000000000000002'')\<rparr>, liam_post]\<rparr>)
   \<and> patch_api_posts_assign ''66000000000000000000000a'' assign_to_liam
       (blog_db\<lparr>posts := [emma_post\<lparr>userId := Some (ObjectId ''650000000000000000000002'')\<rparr>, liam_post]\<rparr>) =
     (Response 404 (ErrorBody ''Post not found or not changed''),
      blog_db\<lparr>posts := [emma_post\<lparr>userId := Some (ObjectId ''650000000000000000000002'')\<rparr>, liam_post]\<rparr>)"
proof -
  have h: "createFromHexString (assign_to_liam ''userId'') = Inr (ObjectId ''650000000000000000000002'')
      \<and> ObjectId ''650000000000000000000002'' \<in> user_id ` set (users blog_db)
      \<and> createFromHexString (JStr ''66000000000000000000000b'') = Inr (ObjectId ''66000000000000000000000b'')
      \<and> find (\<lambda>p. post_id p = ObjectId ''66000000000000000000000b'') (posts blog_db) = Some liam_post
      \<and> userId liam_post = Some (ObjectId ''650000000000000000000002'')"
    by (simp add: assign_to_liam_def id_defs blog_defs)
  have run: "patch_api_posts_assign ''66000000000000000000000a'' assign_to_liam blog_db =
     (Response 200 SuccessTrue,
      blog_db\<lparr>posts := [emma_post\<lparr>userId := Some (ObjectId ''650000000000000000000002'')\<rparr>, liam_post]\<rparr>)"
    by (simp add: patch_api_posts_assign_def patch_api_posts_assign_try_def assign_to_liam_def
          id_defs blog_defs)
  from patch_assign_not_idempotent [where b = assign_to_liam and d = blog_db
      and postId = "''66000000000000000000000b''" and p = liam_post
      and uid = "ObjectId ''650000000000000000000002''"
      and i = "ObjectId ''66000000000000000000000b''"] h
  have a: "patch_api_posts_assign ''66000000000000000000000b'' assign_to_liam blog_db =
     (Response 404 (ErrorBody ''Post not found or not changed''), blog_db)" by blast
  from patch_assign_not_idempotent [where b = assign_to_liam and d = blog_db
      and postId = "''66000000000000000000000a''" and pl = SuccessTrue
      and d' = "blog_db\<lparr>posts := [emma_post\<lparr>userId := Some (ObjectId ''650000000000000000000002'')\<rparr>, liam_post]\<rparr>"] run
  have b: "patch_api_posts_assign ''66000000000000000000000a'' assign_to_liam
       (blog_db\<lparr>posts := [emma_post\<lparr>userId := Some (ObjectId ''650000000000000000000002'')\<rparr>, liam_post]\<rparr>) =
     (Response 404 (ErrorBody ''Post not found or not changed''),
      blog_db\<lparr>posts := [emma_post\<lparr>userId := Some (ObjectId ''650000000000000000000002'')\<rparr>, liam_post]\<rparr>)"
    by blast
  from a run b show ?thesis by simp
qed


subsection \<open>The startup seed\<close>

text \<open>
  Claim C3, as stated: whenever the posts collection is empty the seed inserts the
  four sample posts, however many users exist. With no user at all the guard on
  \<open>userList.length\<close> skips the insert and the posts collection stays empty.
\<close>

theorem seed_empty_store_counterexample:
  "posts empty_db = [] \<and> seed sample_gen empty_db = Inr empty_db"
  by (simp add: seed_def empty_db_def)

text \<open>
  Claim C3, amended. The seed changes nothing when the posts collection is not
  empty, and nothing when it is empty and there is no user. When the posts
  collection is empty and at least one user exists, it inserts the four fixed sample
  posts; post \<open>i\<close> (0 to 3) references the user at position \<open>i\<close> of the users
  collection when there is one, and no user otherwise: positions beyond the last
  user are read without a bounds check and give an empty reference.
\<close>

theorem seed_inserts_when_users_exist:
  "(posts d \<noteq> [] \<longrightarrow> seed gen d = Inr d)
   \<and> (posts d = [] \<and> users d = [] \<longrightarrow> seed gen d = Inr d)
   \<and> (posts d = [] \<and> users d \<noteq> [] \<longrightarrow>
        (\<exists>ps. seed gen d = Inr (d\<lparr>posts := ps\<rparr>) \<and> length ps = 4
           \<and> map title ps = [JStr ''Hello from Emma'', JStr ''Liam on the Beach'',
                JStr sophia_title,
                JStr noah_title]
           \<and> (\<forall>i<4. post_id (ps ! i) = gen i
                 \<and> userId (ps ! i) =
                     (if i < length (users d) then Some (user_id (users d ! i)) else None))))"
proof (intro conjI impI)
  assume "posts d \<noteq> []"
  then show "seed gen d = Inr d" by (rule seed_posts_present)
next
  assume "posts d = [] \<and> users d = []"
  then show "seed gen d = Inr d" by (simp add: seed_no_users)
next
  assume a: "posts d = [] \<and> users d \<noteq> []"
  let ?ps = "sample_posts gen (user_id (users d ! 0)) (users d)"
  from a have s: "seed gen d = Inr (d\<lparr>posts := ?ps\<rparr>)" by (simp add: seed_some_users)
  have t: "map title ?ps = [JStr ''Hello from Emma'', JStr ''Liam on the Beach'',
                JStr sophia_title,
                JStr noah_title]"
    by (simp add: sample_posts_def)
  have r: "\<forall>i<4. post_id (?ps ! i) = gen i
      \<and> userId (?ps ! i) = (if i < length (users d) then Some (user_id (users d ! i)) else None)"
    using a by (simp add: sample_posts_refs sample_posts_post_id at_index_def)
  have n: "length ?ps = 4" by (rule sample_posts_length)
  from s n t r have "seed gen d = Inr (d\<lparr>posts := ?ps\<rparr>) \<and> length ?ps = 4
           \<and> map title ?ps = [JStr ''Hello from Emma'', JStr ''Liam on the Beach'',
                JStr sophia_title,
                JStr noah_title]
           \<and> (\<forall>i<4. post_id (?ps ! i) = gen i
                 \<and> userId (?ps ! i) =
                     (if i < length (users d) then Some (user_id (users d ! i)) else None))"
    by (intro conjI)
  then show "\<exists>ps. seed gen d = Inr (d\<lparr>posts := ps\<rparr>) \<and> length ps = 4
           \<and> map title ps = [JStr ''Hello from Emma'', JStr ''Liam on the Beach'',
                JStr sophia_title,
                JStr noah_title]
           \<and> (\<forall>i<4. post_id (ps ! i) = gen i
                 \<and> userId (ps ! i) =
                     (if i < length (users d) then Some (user_id (users d ! i)) else None))"
    by (rule exI)
qed

theorem seed_inserts_when_users_exist_witness:
  "seed sample_gen blog_db = Inr blog_db
   \<and> seed sample_gen empty_db = Inr empty_db
   \<and> length (posts (projr (seed sample_gen two_users_db))) = 4
   \<and> userId (posts (projr (seed sample_gen two_users_db)) ! 1)
       = Some (ObjectId ''650000000000000000000002'')
   \<and> userId (posts (projr (seed sample_gen two_users_db)) ! 2) = None
   \<and> post_id (posts (projr (seed sample_gen two_users_db)) ! 2)
       = ObjectId ''66000000000000000000000c''"
proof -
  note t = seed_inserts_when_users_exist [where gen = sample_gen]
  have "posts blog_db \<noteq> []" by (simp add: blog_db_def)
  with t [where d = blog_db] have a: "seed sample_gen blog_db = Inr blog_db" by blast
  have "posts empty_db = [] \<and> users empty_db = []" by (simp add: empty_db_def)
  with t [where d = empty_db] have b: "seed sample_gen empty_db = Inr empty_db" by blast
  have "posts two_users_db = [] \<and> users two_users_db \<noteq> []" by (simp add: two_users_db_def)
  with t [where d = two_users_db] obtain ps where
    ps: "seed sample_gen two_users_db = Inr (two_users_db\<lparr>posts := ps\<rparr>)" "length ps = 4"
      "\<forall>i<4. post_id (ps ! i) = sample_gen i
         \<and> userId (ps ! i) =
             (if i < length (users two_users_db) then Some (user_id (users two_users_db ! i)) else None)"
    by blast
  from ps(1) have p: "posts (projr (seed sample_gen two_users_db)) = ps" by simp
  from ps(3) have one: "userId (ps ! 1) = Some (ObjectId ''650000000000000000000002'')"
    by (simp add: two_users_db_def liam_def)
  from ps(3) have two: "userId (ps ! 2) = None \<and> post_id (ps ! 2) = ObjectId ''66000000000000000000000c''"
    by (simp add: two_users_db_def sample_gen_def)
  from a b p ps(2) one two show ?thesis by simp
qed


text \<open>
  Claim C4. From a state with exactly four users, whose identifiers are pairwise
  distinct as the store guarantees for \<open>_id\<close>, and no post, the seed succeeds,
  and GET /api/posts on the seeded state answers 200 with exactly four rows, the four
  sample posts; row \<open>i\<close> (0 to 3) carries the identifier of the \<open>i\<close>-th user
  of the users collection and is joined to that user.
\<close>

theorem seed_then_get_api_posts:
  assumes "length (users d) = 4" and "posts d = []" and "distinct (map user_id (users d))"
  shows "\<exists>d' rows. seed gen d = Inr d' \<and> users d' = users d
     \<and> get_api_posts d' = Response 200 (PostsWithUser rows) \<and> length rows = 4
     \<and> map (title \<circ> fst) rows = [JStr ''Hello from Emma'', JStr ''Liam on the Beach'',
                JStr sophia_title,
                JStr noah_title]
     \<and> (\<forall>i<4. post_id (fst (rows ! i)) = gen i
           \<and> userId (fst (rows ! i)) = Some (user_id (users d ! i))
           \<and> snd (rows ! i) = Some (users d ! i))"
proof -
  let ?ps = "sample_posts gen (user_id (users d ! 0)) (users d)"
  let ?d' = "d\<lparr>posts := ?ps\<rparr>"
  let ?rows = "map (\<lambda>p. (p, find (\<lambda>u. userId p = Some (user_id u)) (users d))) ?ps"
  from assms(1) have ne: "users d \<noteq> []" by auto
  from assms(2) ne have s: "seed gen d = Inr ?d'" by (rule seed_some_users)
  have u: "users ?d' = users d" by simp
  have g: "get_api_posts ?d' = Response 200 (PostsWithUser ?rows)"
    by (simp add: get_api_posts_def)
  have n: "length ?rows = 4" by (simp add: sample_posts_length)
  have t: "map (title \<circ> fst) ?rows = [JStr ''Hello from Emma'', JStr ''Liam on the Beach'',
                JStr sophia_title,
                JStr noah_title]"
    by (simp add: sample_posts_def)
  have r: "\<forall>i<4. post_id (fst (?rows ! i)) = gen i
           \<and> userId (fst (?rows ! i)) = Some (user_id (users d ! i))
           \<and> snd (?rows ! i) = Some (users d ! i)"
  proof (intro allI impI)
    fix i :: nat assume i: "i < 4"
    with assms(1) have il: "i < length (users d)" by simp
    from i have row: "?rows ! i = (?ps ! i, find (\<lambda>u. userId (?ps ! i) = Some (user_id u)) (users d))"
      by (simp add: sample_posts_length)
    from sample_posts_refs [OF ne i, of gen] il
    have ref: "userId (?ps ! i) = Some (user_id (users d ! i))"
      by (simp add: at_index_def)
    from find_by_id_distinct [OF assms(3) il] ref
    have "find (\<lambda>u. userId (?ps ! i) = Some (user_id u)) (users d) = Some (users d ! i)"
      by simp
    with row ref sample_posts_post_id [OF i, of gen]
    show "post_id (fst (?rows ! i)) = gen i
           \<and> userId (fst (?rows ! i)) = Some (user_id (users d ! i))
           \<and> snd (?rows ! i) = Some (users d ! i)"
      by simp
  qed
  from s u g n t r have "seed gen d = Inr ?d' \<and> users ?d' = users d
     \<and> get_api_posts ?d' = Response 200 (PostsWithUser ?rows) \<and> length ?rows = 4
     \<and> map (title \<circ> fst) ?rows = [JStr ''Hello from Emma'', JStr ''Liam on the Beach'',
                JStr sophia_title,
                JStr noah_title]
     \<and> (\<forall>i<4. post_id (fst (?rows ! i)) = gen i
           \<and> userId (fst (?rows ! i)) = Some (user_id (users d ! i))
           \<and> snd (?rows ! i) = Some (users d ! i))"
    by (intro conjI)
  then show ?thesis
    by - (rule exI [of _ ?d'], rule exI [of _ ?rows])
qed

theorem seed_then_get_api_posts_witness:
  "length (users four_users_db) = 4 \<and> posts four_users_db = []
   \<and> distinct (map user_id (users four_users_db))
   \<and> (case get_api_posts (projr (seed sample_gen four_users_db)) of
        Response st pl \<Rightarrow> st = 200 \<and>
          (case pl of PostsWithUser rows \<Rightarrow>
             length rows = 4
             \<and> map (userId \<circ> fst) rows = [Some (user_id emma), Some (user_id liam),
                   Some (user_id sophia), Some (user_id noah)]
             \<and> map snd rows = [Some emma, Some liam, Some sophia, Some noah]
           | _ \<Rightarrow> False))"
proof -
  have h1: "length (users four_users_db) = 4" by (simp add: four_users_db_def)
  have h2: "posts four_users_db = []" by (simp add: four_users_db_def)
  have h3: "distinct (map user_id (users four_users_db))" by (simp add: four_defs)
  from seed_then_get_api_posts [OF h1 h2 h3, of sample_gen] obtain d' rows where
    r: "seed sample_gen four_users_db = Inr d'"
       "get_api_posts d' = Response 200 (PostsWithUser rows)" "length rows = 4"
       "\<forall>i<4. post_id (fst (rows ! i)) = sample_gen i
           \<and> userId (fst (rows ! i)) = Some (user_id (users four_users_db ! i))
           \<and> snd (rows ! i) = Some (users four_users_db ! i)"
    by blast
  from r(3) have rows: "rows = [rows ! 0, rows ! 1, rows ! 2, rows ! 3]"
    by (rule four_elements)
  from r(4) have "userId (fst (rows ! 0)) = Some (user_id emma) \<and> snd (rows ! 0) = Some emma
      \<and> userId (fst (rows ! 1)) = Some (user_id liam) \<and> snd (rows ! 1) = Some liam
      \<and> userId (fst (rows ! 2)) = Some (user_id sophia) \<and> snd (rows ! 2) = Some sophia
      \<and> userId (fst (rows ! 3)) = Some (user_id noah) \<and> snd (rows ! 3) = Some noah"
    by (simp add: four_users_db_def)
  note e = this
  from rows have "map (userId \<circ> fst) rows = map (userId \<circ> fst) [rows ! 0, rows ! 1, rows ! 2, rows ! 3]"
    by (rule arg_cong)
  with e have m1: "map (userId \<circ> fst) rows = [Some (user_id emma), Some (user_id liam),
                   Some (user_id sophia), Some (user_id noah)]"
    by simp
  from rows have "map snd rows = map snd [rows ! 0, rows ! 1, rows ! 2, rows ! 3]"
    by (rule arg_cong)
  with e have m2: "map snd rows = [Some emma, Some liam, Some sophia, Some noah]"
    by simp
  note m = m1 m2
  from r(1) have "projr (seed sample_gen four_users_db) = d'" by simp
  with r(2) r(3) m h1 h2 h3 show ?thesis by simp
qed


subsection \<open>The demo run\<close>




end
